theory Spec2Isabelle
  imports
    Main
    "HOL-Library.Char_ord"
    "HOL-Library.List_Lexorder"
    "HOL-Library.Product_Lexorder"
begin

section \<open>Python strings\<close>

text \<open>
  A Python \<open>str\<close> is modelled as a \<open>string\<close> whose characters are the code points
  below 256. Comparison of strings is lexicographic by code point and comparison of
  tuples is lexicographic by component, which is the order the imported library
  theories give to \<open>char list\<close> and to pairs.
\<close>

definition isspace :: "char \<Rightarrow> bool" where
  \<comment> \<open>\<open>str.isspace\<close> on one character: TAB, LF, VT, FF, CR, FS, GS, RS, US, SPACE, NEL, NBSP\<close>
  "isspace c =
     (let n = (of_char c :: nat)
      in (9 \<le> n \<and> n \<le> 13) \<or> (28 \<le> n \<and> n \<le> 32) \<or> n = 133 \<or> n = 160)"

definition lstrip :: "string \<Rightarrow> string" where
  "lstrip s = dropWhile isspace s"

definition rstrip :: "string \<Rightarrow> string" where
  "rstrip s = rev (dropWhile isspace (rev s))"

definition strip :: "string \<Rightarrow> string" where
  "strip s = rstrip (lstrip s)"

definition lower_char :: "char \<Rightarrow> char" where
  \<comment> \<open>\<open>str.lower\<close> on one character: A-Z and the upper-case letters of Latin-1\<close>
  "lower_char c =
     (let n = (of_char c :: nat)
      in if (65 \<le> n \<and> n \<le> 90) \<or> (192 \<le> n \<and> n \<le> 222 \<and> n \<noteq> 215)
         then char_of (n + 32) else c)"

definition lower :: "string \<Rightarrow> string" where
  "lower s = map lower_char s"

fun join :: "string \<Rightarrow> string list \<Rightarrow> string" where
  "join sep [] = []"
| "join sep [x] = x"
| "join sep (x # y # ys) = x @ sep @ join sep (y # ys)"

fun startswith :: "string \<Rightarrow> string \<Rightarrow> bool" where
  "startswith s [] = True"
| "startswith [] (p # ps) = False"
| "startswith (c # cs) (p # ps) = (c = p \<and> startswith cs ps)"

fun contains :: "string \<Rightarrow> string \<Rightarrow> bool" where
  \<comment> \<open>\<open>p in s\<close>: the string \<open>p\<close> occurs in \<open>s\<close>\<close>
  "contains [] p = (p = [])"
| "contains (c # cs) p = (startswith (c # cs) p \<or> contains cs p)"

section \<open>ElementTree documents\<close>

text \<open>
  An element of \<open>xml.etree.ElementTree\<close>: its tag (with the namespace written
  \<open>{uri}local\<close>), its attribute dictionary, its text (\<open>None\<close> when absent) and its
  children in document order.
\<close>

datatype element =
  Element (tag: string) (attrib: "(string \<times> string) list")
          (elem_text: "string option") (children: "element list")

datatype error = ParseError | NotADirectoryError | IsADirectoryError

fun iter :: "element \<Rightarrow> element list" where
  "iter (Element t a x cs) = Element t a x cs # concat (map iter cs)"

definition descendants :: "element \<Rightarrow> element list" where
  \<comment> \<open>the step \<open>//\<close> of a path: every \<open>e\<close> of \<open>elem.iter()\<close> that is not \<open>elem\<close>\<close>
  "descendants e = concat (map iter (children e))"

definition any_ns :: "string \<Rightarrow> string \<Rightarrow> bool" where
  \<comment> \<open>the tag test \<open>{*}name\<close>: \<open>el_tag == name or el_tag[-len('}name'):] == '}name'\<close>\<close>
  "any_ns name el_tag =
     (el_tag = name \<or>
      drop (length el_tag - length (CHR ''}'' # name)) el_tag = CHR ''}'' # name)"

definition findall_descendant :: "element \<Rightarrow> string \<Rightarrow> element list" where
  \<comment> \<open>\<open>root.findall(".//name")\<close>\<close>
  "findall_descendant root name = filter (\<lambda>e. tag e = name) (descendants root)"

definition find_child :: "element \<Rightarrow> string \<Rightarrow> element option" where
  \<comment> \<open>\<open>node.find("name")\<close>\<close>
  "find_child node name = List.find (\<lambda>e. tag e = name) (children node)"

definition findtext :: "element \<Rightarrow> string \<Rightarrow> string option" where
  \<comment> \<open>\<open>node.findtext("name")\<close>: \<open>None\<close> without a match, else \<open>elem.text or ""\<close>\<close>
  "findtext node name =
     (case find_child node name of
        None \<Rightarrow> None
      | Some e \<Rightarrow> (case elem_text e of None \<Rightarrow> Some [] | Some t \<Rightarrow> Some t))"

definition findall_metadata :: "element \<Rightarrow> string \<Rightarrow> element list" where
  \<comment> \<open>\<open>root.findall(".//{*}metadata/{*}name")\<close>\<close>
  "findall_metadata root name =
     concat (map (\<lambda>m. filter (\<lambda>e. any_ns name (tag e)) (children m))
                 (filter (\<lambda>e. any_ns ''metadata'' (tag e)) (descendants root)))"

definition find_metadata :: "element \<Rightarrow> string \<Rightarrow> element option" where
  \<comment> \<open>\<open>root.find(".//{*}metadata/{*}name")\<close>: the first match\<close>
  "find_metadata root name =
     (case findall_metadata root name of [] \<Rightarrow> None | e # _ \<Rightarrow> Some e)"

section \<open>Collector\<close>

definition package_reference :: "element \<Rightarrow> (string \<times> string) option" where
  \<comment> \<open>the body of the inner loop of \<open>read_csproj_packages\<close>: the pair it adds, if any\<close>
  "package_reference node =
     (let include = map_of (attrib node) ''Include'';
          version =
            (case map_of (attrib node) ''Version'' of
               Some v \<Rightarrow>
                 if v \<noteq> [] then v
                 else (case findtext node ''Version'' of None \<Rightarrow> [] | Some t \<Rightarrow> t)
             | None \<Rightarrow> (case findtext node ''Version'' of None \<Rightarrow> [] | Some t \<Rightarrow> t))
      in case include of
           None \<Rightarrow> None
         | Some i \<Rightarrow> if i \<noteq> [] \<and> version \<noteq> [] then Some (strip i, strip version) else None)"

definition tree_packages :: "element \<Rightarrow> (string \<times> string) list" where
  "tree_packages tree =
     List.map_filter package_reference (findall_descendant tree ''PackageReference'')"

fun collect_packages ::
  "element option list \<Rightarrow> (string \<times> string) set \<Rightarrow> error + (string \<times> string) set" where
  "collect_packages [] packages = Inr packages"
| "collect_packages (None # rest) packages = Inl ParseError"
| "collect_packages (Some tree # rest) packages =
     collect_packages rest (packages \<union> set (tree_packages tree))"

definition sort_packages :: "(string \<times> string) list \<Rightarrow> (string \<times> string) list" where
  \<comment> \<open>\<open>sorted(packages, key=lambda x: (x[0].lower(), x[1]))\<close>; \<open>sorted\<close> is stable\<close>
  "sort_packages ps = sort_key (\<lambda>x. (lower (fst x), snd x)) ps"

definition read_csproj_packages ::
  "((string \<times> string) set \<Rightarrow> (string \<times> string) list) \<Rightarrow> element option list
     \<Rightarrow> error + (string \<times> string) list" where
  "read_csproj_packages set_iter csprojs =
     (case collect_packages csprojs {} of
        Inl e \<Rightarrow> Inl e
      | Inr packages \<Rightarrow> Inr (sort_packages (set_iter packages)))"

section \<open>Metadata fetcher\<close>

text \<open>
  The dictionary returned by \<open>fetch_nuspec_metadata\<close>; its four keys are the fields
  (prefixed, since the component has fields of the same names).
\<close>

record metadata =
  meta_license_name :: string
  meta_license_url :: string
  meta_homepage :: string
  meta_notes :: string

definition nuspec_url :: "string \<Rightarrow> string \<Rightarrow> string" where
  "nuspec_url package_id version =
     (let package_l = lower package_id; version_l = lower version
      in ''https://api.nuget.org/v3-flatcontainer/'' @ package_l @ ''/'' @ version_l @ ''/''
           @ package_l @ ''.nuspec'')"

definition metadata_txt :: "element \<Rightarrow> string \<Rightarrow> string" where
  \<comment> \<open>the local function \<open>txt\<close> at \<open>meta_prefix + "{*}name"\<close>\<close>
  "metadata_txt root name =
     (case find_metadata root name of
        None \<Rightarrow> []
      | Some node \<Rightarrow>
          (case elem_text node of
             None \<Rightarrow> []
           | Some t \<Rightarrow> if t \<noteq> [] then strip t else []))"

definition attrib_get :: "element \<Rightarrow> string \<Rightarrow> string \<Rightarrow> string" where
  \<comment> \<open>\<open>elem.attrib.get(key, default)\<close>\<close>
  "attrib_get e k d = (case map_of (attrib e) k of None \<Rightarrow> d | Some v \<Rightarrow> v)"

definition unknown_metadata :: metadata where
  "unknown_metadata =
     \<lparr>meta_license_name = ''UNKNOWN'', meta_license_url = [], meta_homepage = [],
      meta_notes = ''Unable to fetch nuspec metadata from nuget.org in this environment.''\<rparr>"

definition nuspec_metadata :: "element \<Rightarrow> metadata" where
  \<comment> \<open>\<open>fetch_nuspec_metadata\<close> from the parsed document on\<close>
  "nuspec_metadata root =
     (let project_url = metadata_txt root ''projectUrl'';
          license_expr = metadata_txt root ''license'';
          license_url = metadata_txt root ''licenseUrl'';
          license_name0 = (if license_expr \<noteq> [] then license_expr else ''UNKNOWN'');
          license_name =
            (case find_metadata root ''license'' of
               None \<Rightarrow> license_name0
             | Some lic \<Rightarrow>
                 if license_expr = [] then license_name0
                 else if lower (attrib_get lic ''type'' []) = ''expression''
                   then ''SPDX: '' @ license_expr
                 else if lower (attrib_get lic ''type'' []) = ''file''
                   then ''License file: '' @ license_expr
                 else license_name0)
      in \<lparr>meta_license_name = license_name, meta_license_url = license_url,
          meta_homepage = project_url, meta_notes = []\<rparr>)"

definition fetch_nuspec_metadata ::
  "(string \<Rightarrow> string option) \<Rightarrow> (string \<Rightarrow> element option) \<Rightarrow> string \<Rightarrow> string
     \<Rightarrow> error + metadata" where
  \<comment> \<open>\<open>urlopen url = None\<close>: an exception inside the \<open>try\<close> block;
      \<open>fromstring data = None\<close>: \<open>ET.fromstring\<close> raises \<open>ParseError\<close>\<close>
  "fetch_nuspec_metadata urlopen fromstring package_id version =
     (case urlopen (nuspec_url package_id version) of
        None \<Rightarrow> Inr unknown_metadata
      | Some data \<Rightarrow>
          (case fromstring data of
             None \<Rightarrow> Inl ParseError
           | Some root \<Rightarrow> Inr (nuspec_metadata root)))"

section \<open>Components and the bundled-component scanner\<close>

text \<open>The dataclass \<open>Component\<close>; \<open>notes'\<close> is its field \<open>notes\<close>.\<close>

record component =
  name :: string
  version :: string
  source :: string
  license_name :: string
  license_url :: string
  homepage :: string
  notes' :: string

definition LICENSE_FILE_CANDIDATES :: "string list" where
  "LICENSE_FILE_CANDIDATES =
     [''LICENSE'', ''LICENSE.txt'', ''LICENSE.md'', ''COPYING'', ''COPYING.txt'',
      ''NOTICE'', ''NOTICE.txt'']"

text \<open>
  The part of the file system the scanner reads: a regular file with its decoded text,
  or a directory with its entries in the order \<open>iterdir\<close> lists them.
\<close>

datatype fsnode = File string | Dir "(string \<times> fsnode) list"

fun is_dir :: "fsnode \<Rightarrow> bool" where
  "is_dir (Dir es) = True"
| "is_dir (File t) = False"

fun entries :: "fsnode \<Rightarrow> (string \<times> fsnode) list" where
  \<comment> \<open>a path below a regular file does not exist\<close>
  "entries (Dir es) = es"
| "entries (File t) = []"

definition lic_file :: "(string \<times> fsnode) list \<Rightarrow> string option" where
  \<comment> \<open>\<open>next((item / n for n in LICENSE_FILE_CANDIDATES if (item / n).exists()), None)\<close>\<close>
  "lic_file item = List.find (\<lambda>n. map_of item n \<noteq> None) LICENSE_FILE_CANDIDATES"

definition bundled_component :: "string \<times> fsnode \<Rightarrow> component" where
  \<comment> \<open>the body of the loop of \<open>detect_bundled_components\<close>\<close>
  "bundled_component item =
     (let found = lic_file (entries (snd item));
          note = (if found \<noteq> None then ''License file copied from bundled component.''
                  else ''No bundled license file detected.'')
      in \<lparr>name = fst item, version = ''bundled'', source = ''Bundled'',
          license_name = (if found \<noteq> None then ''See bundled files'' else ''UNKNOWN''),
          license_url = [], homepage = [], notes' = note\<rparr>)"

definition detect_bundled_components :: "fsnode option \<Rightarrow> error + component list" where
  \<comment> \<open>the argument is \<open>root / "third_party"\<close>, \<open>None\<close> when it does not exist\<close>
  "detect_bundled_components third_party =
     (case third_party of
        None \<Rightarrow> Inr []
      | Some (File t) \<Rightarrow> Inl NotADirectoryError
      | Some (Dir es) \<Rightarrow>
          Inr (map bundled_component
                 (sort_key (\<lambda>p. lower (fst p)) (filter (\<lambda>p. is_dir (snd p)) es))))"

section \<open>Report writer\<close>

definition safe_char :: "char \<Rightarrow> bool" where
  \<comment> \<open>membership in the character class \<open>[A-Za-z0-9._-]\<close>\<close>
  "safe_char c =
     (let n = (of_char c :: nat)
      in (65 \<le> n \<and> n \<le> 90) \<or> (97 \<le> n \<and> n \<le> 122) \<or> (48 \<le> n \<and> n \<le> 57)
         \<or> c = CHR ''.'' \<or> c = CHR ''_'' \<or> c = CHR ''-'')"

function safe_file_name :: "string \<Rightarrow> string" where
  \<comment> \<open>\<open>re.sub(r"[^A-Za-z0-9._-]+", "_", value)\<close>: each maximal run of characters outside
      the class becomes one underscore\<close>
  "safe_file_name [] = []"
| "safe_file_name (c # cs) =
     (if safe_char c then c # safe_file_name cs
      else CHR ''_'' # safe_file_name (dropWhile (\<lambda>d. \<not> safe_char d) cs))"
  by pat_completeness auto
termination
  by (relation "measure length") (auto simp: length_dropWhile_le less_Suc_eq_le)

definition license_file_name :: "component \<Rightarrow> string" where
  "license_file_name c =
     source c @ ''_'' @ safe_file_name (name c) @ ''_'' @ safe_file_name (version c) @ ''.txt''"

definition or_na :: "string \<Rightarrow> string" where
  \<comment> \<open>\<open>value or 'N/A'\<close>\<close>
  "or_na v = (if v \<noteq> [] then v else ''N/A'')"

definition record_lines :: "component \<Rightarrow> string list" where
  \<comment> \<open>the list \<open>lines\<close> of \<open>write_license_file\<close> before the bundled text is added\<close>
  "record_lines c =
     [''Component: '' @ name c,
      ''Version: '' @ version c,
      ''Source: '' @ source c,
      ''License: '' @ license_name c,
      ''License URL: '' @ or_na (license_url c),
      ''Homepage: '' @ or_na (homepage c),
      []]
     @ (if notes' c \<noteq> [] then [''Notes: '' @ notes' c] else [])"

definition bundled_dir :: "fsnode option \<Rightarrow> string \<Rightarrow> (string \<times> fsnode) list" where
  \<comment> \<open>the entries of \<open>root / "third_party" / name\<close>, for \<open>name\<close> the name of a directory
      entry; none when the path does not exist\<close>
  "bundled_dir third_party nm =
     (case third_party of
        None \<Rightarrow> []
      | Some tp \<Rightarrow> (case map_of (entries tp) nm of None \<Rightarrow> [] | Some d \<Rightarrow> entries d))"

definition file_text :: "string list \<Rightarrow> string" where
  \<comment> \<open>\<open>"\n".join(lines).rstrip() + "\n"\<close>\<close>
  "file_text ls = rstrip (join ''\<newline>'' ls) @ ''\<newline>''"

definition write_license_file ::
  "component \<Rightarrow> fsnode option \<Rightarrow> error + (string \<times> string)" where
  \<comment> \<open>the result is the name of the file written in \<open>out_dir\<close> and its text;
      \<open>read_text\<close> of a directory raises\<close>
  "write_license_file c third_party =
     (if source c = ''Bundled'' then
        (case lic_file (bundled_dir third_party (name c)) of
           None \<Rightarrow> Inr (license_file_name c, file_text (record_lines c))
         | Some n \<Rightarrow>
             (case map_of (bundled_dir third_party (name c)) n of
                Some (File t) \<Rightarrow>
                  Inr (license_file_name c,
                       file_text (record_lines c
                                  @ [[], ''----- Bundled license text -----'', []] @ [t]))
              | _ \<Rightarrow> Inl IsADirectoryError))
      else Inr (license_file_name c, file_text (record_lines c)))"

fun nuget_components ::
  "(string \<Rightarrow> string option) \<Rightarrow> (string \<Rightarrow> element option) \<Rightarrow> (string \<times> string) list
     \<Rightarrow> error + component list" where
  \<comment> \<open>the first loop of \<open>generate\<close>\<close>
  "nuget_components urlopen fromstring [] = Inr []"
| "nuget_components urlopen fromstring ((package_id, ver) # rest) =
     (case fetch_nuspec_metadata urlopen fromstring package_id ver of
        Inl e \<Rightarrow> Inl e
      | Inr meta \<Rightarrow>
          (case nuget_components urlopen fromstring rest of
             Inl e \<Rightarrow> Inl e
           | Inr cs \<Rightarrow>
               Inr (\<lparr>name = package_id, version = ver, source = ''NuGet'',
                     license_name = meta_license_name meta,
                     license_url = meta_license_url meta,
                     homepage = meta_homepage meta, notes' = meta_notes meta\<rparr> # cs)))"

definition unknown_component :: "string \<times> string \<Rightarrow> component" where
  \<comment> \<open>the component \<open>generate\<close> builds for a package from the placeholder record\<close>
  "unknown_component p =
     \<lparr>name = fst p, version = snd p, source = ''NuGet'', license_name = ''UNKNOWN'',
      license_url = [], homepage = [],
      notes' = ''Unable to fetch nuspec metadata from nuget.org in this environment.''\<rparr>"

definition sort_components :: "component list \<Rightarrow> component list" where
  \<comment> \<open>\<open>sorted(components, key=lambda c: (c.source, c.name.lower(), c.version))\<close>\<close>
  "sort_components cs = sort_key (\<lambda>c. (source c, lower (name c), version c)) cs"

definition collect_components ::
  "((string \<times> string) set \<Rightarrow> (string \<times> string) list) \<Rightarrow> (string \<Rightarrow> string option)
     \<Rightarrow> (string \<Rightarrow> element option) \<Rightarrow> element option list \<Rightarrow> fsnode option
     \<Rightarrow> error + component list" where
  \<comment> \<open>\<open>generate\<close> up to the sorted list \<open>components\<close>\<close>
  "collect_components set_iter urlopen fromstring csprojs third_party =
     (case read_csproj_packages set_iter csprojs of
        Inl e \<Rightarrow> Inl e
      | Inr packages \<Rightarrow>
          (case nuget_components urlopen fromstring packages of
             Inl e \<Rightarrow> Inl e
           | Inr cs \<Rightarrow>
               (case detect_bundled_components third_party of
                  Inl e \<Rightarrow> Inl e
                | Inr bs \<Rightarrow> Inr (sort_components (cs @ bs)))))"

fun write_license_files ::
  "component list \<Rightarrow> fsnode option \<Rightarrow> error + (string \<times> string) list" where
  \<comment> \<open>the loop over \<open>write_license_file\<close>: the files written, in order\<close>
  "write_license_files [] third_party = Inr []"
| "write_license_files (c # cs) third_party =
     (case write_license_file c third_party of
        Inl e \<Rightarrow> Inl e
      | Inr f \<Rightarrow>
          (case write_license_files cs third_party of
             Inl e \<Rightarrow> Inl e
           | Inr fs \<Rightarrow> Inr (f # fs)))"

definition table_row :: "component \<Rightarrow> string" where
  "table_row c =
     ''| '' @ source c @ '' | '' @ name c @ '' | '' @ version c @ '' | '' @ license_name c
       @ '' | '' @ license_url c @ '' |''"

definition notice_text :: "component list \<Rightarrow> string" where
  "notice_text cs =
     file_text
       ([''# THIRD_PARTY_NOTICES'',
         [],
         ''This file is generated by `scripts/generate_third_party_notices.py`.'',
         [],
         ''## Included third-party components'',
         [],
         ''| Source | Name | Version | License | License URL |'',
         ''|---|---|---|---|---|'']
        @ map table_row cs
        @ [[],
           ''## Per-component license files'',
           [],
           ''Detailed records are written to the `LICENSES/` directory.''])"

text \<open>
  What a run of the generator leaves behind: the files written into \<open>LICENSES\<close> (in the
  order of writing; the directory's \<open>*.txt\<close> files are unlinked first, and a later write
  replaces an earlier one of the same name) and the text of \<open>THIRD_PARTY_NOTICES.md\<close>.
\<close>

record generated =
  licenses :: "(string \<times> string) list"
  notice :: string

definition generate ::
  "((string \<times> string) set \<Rightarrow> (string \<times> string) list) \<Rightarrow> (string \<Rightarrow> string option)
     \<Rightarrow> (string \<Rightarrow> element option) \<Rightarrow> element option list \<Rightarrow> fsnode option
     \<Rightarrow> error + generated" where
  "generate set_iter urlopen fromstring csprojs third_party =
     (case collect_components set_iter urlopen fromstring csprojs third_party of
        Inl e \<Rightarrow> Inl e
      | Inr components \<Rightarrow>
          (case write_license_files components third_party of
             Inl e \<Rightarrow> Inl e
           | Inr files \<Rightarrow> Inr \<lparr>licenses = files, notice = notice_text components\<rparr>))"

section \<open>Drift checker\<close>

record completed_process =
  returncode :: int
  stdout :: string
  stderr :: string

text \<open>
  \<open>main\<close> of the checker, given what its three commands return: the generator, then
  \<open>git diff --exit-code\<close>, then \<open>git ls-files --others\<close>. The result is the exit code
  with what was written to standard output and to standard error.
\<close>

definition main :: "completed_process \<Rightarrow> completed_process \<Rightarrow> completed_process
    \<Rightarrow> int \<times> string \<times> string" where
  "main gen diff others =
     (if returncode gen \<noteq> 0 then (returncode gen, stdout gen, stderr gen)
      else if returncode diff \<noteq> 0 then
        (1,
         stdout gen
           @ ''[ERROR] THIRD_PARTY_NOTICES.md and/or LICENSES are out of date. Run generator and commit changes.''
           @ ''\<newline>'' @ stdout diff,
         stderr gen @ stderr diff)
      else if returncode others = 0 \<and> strip (stdout others) \<noteq> [] then
        (1,
         stdout gen @ ''[ERROR] Untracked notices/license files detected:'' @ ''\<newline>''
           @ strip (stdout others) @ ''\<newline>'',
         stderr gen)
      else
        (0,
         stdout gen @ ''[OK] THIRD_PARTY_NOTICES and LICENSES are present and up-to-date.''
           @ ''\<newline>'',
         stderr gen))"

section \<open>Example inputs\<close>

text \<open>
  Concrete inputs on which the theorems below are instantiated: manifests, a small
  registry (the documents served at some URLs, every other request failing, and the
  trees \<open>ET.fromstring\<close> builds from them) and a vendored-code directory.
\<close>

definition example_csproj :: element where
  "example_csproj =
     Element ''Project'' [(''Sdk'', ''Microsoft.NET.Sdk'')] None
       [Element ''ItemGroup'' [] None
          [Element ''PackageReference'' [(''Include'', ''Serilog''), (''Version'', ''3.1.1'')]
             None [],
           Element ''PackageReference'' [(''Include'', ''Serilog''), (''Version'', ''3.1.1'')]
             None [],
           Element ''PackageReference'' [(''Include'', ''Dapper'')] None
             [Element ''Version'' [] (Some '' 2.1.35 '') []],
           Element ''PackageReference'' [(''Include'', ''NoVersion'')] None []]]"

definition blank_csproj :: element where
  \<comment> \<open>\<open><PackageReference Include=" " Version="1.0" />\<close>\<close>
  "blank_csproj =
     Element ''Project'' [] None
       [Element ''ItemGroup'' [] None
          [Element ''PackageReference'' [(''Include'', '' ''), (''Version'', ''1.0'')] None []]]"

definition case_csproj :: element where
  \<comment> \<open>one package referenced under two spellings of its name\<close>
  "case_csproj =
     Element ''Project'' [] None
       [Element ''ItemGroup'' [] None
          [Element ''PackageReference'' [(''Include'', ''Serilog''), (''Version'', ''3.1.1'')]
             None [],
           Element ''PackageReference'' [(''Include'', ''serilog''), (''Version'', ''3.1.1'')]
             None []]]"

definition nuspec :: "element list \<Rightarrow> element" where
  "nuspec fs =
     Element ''{http://schemas.microsoft.com/packaging/2013/05/nuspec.xsd}package'' [] None
       [Element ''{http://schemas.microsoft.com/packaging/2013/05/nuspec.xsd}metadata'' []
          None fs]"

definition nuspec_field :: "string \<Rightarrow> (string \<times> string) list \<Rightarrow> string \<Rightarrow> element" where
  "nuspec_field nm attrs t =
     Element (''{http://schemas.microsoft.com/packaging/2013/05/nuspec.xsd}'' @ nm) attrs
       (Some t) []"

definition expression_license :: element where
  "expression_license = nuspec_field ''license'' [(''type'', ''expression'')] ''MIT''"

definition file_license :: element where
  "file_license = nuspec_field ''license'' [(''type'', ''file'')] ''LICENSE''"

definition upper_license :: element where
  "upper_license = nuspec_field ''license'' [(''type'', ''EXPRESSION'')] ''MIT''"

definition padded_license :: element where
  "padded_license = nuspec_field ''license'' [] '' MIT ''"

definition spaced_license :: element where
  "spaced_license = nuspec_field ''license'' [(''type'', ''expression'')] '' MIT ''"

definition empty_file_license :: element where
  \<comment> \<open>an element without text\<close>
  "empty_file_license =
     Element ''{http://schemas.microsoft.com/packaging/2013/05/nuspec.xsd}license''
       [(''type'', ''file'')] None []"

definition nuspec_text :: "string \<Rightarrow> string" where
  \<open>nuspec_text body =
     ''<package xmlns="http://schemas.microsoft.com/packaging/2013/05/nuspec.xsd"><metadata>''
       @ body @ ''</metadata></package>''\<close>

definition example_documents :: "(string \<times> element) list" where
  \<comment> \<open>the documents the registry serves, each with the tree it parses to\<close>
  \<open>example_documents =
     [(nuspec_text
         (''<license type="expression">MIT</license>''
            @ ''<licenseUrl>https://licenses.nuget.org/MIT</licenseUrl>''
            @ ''<projectUrl>https://serilog.net/</projectUrl>''),
       nuspec [expression_license,
               nuspec_field ''licenseUrl'' [] ''https://licenses.nuget.org/MIT'',
               nuspec_field ''projectUrl'' [] ''https://serilog.net/'']),
      (nuspec_text ''<license type="file">LICENSE</license>'',
       nuspec [file_license]),
      (nuspec_text ''<license type="EXPRESSION">MIT</license>'',
       nuspec [upper_license]),
      (nuspec_text ''<license> MIT </license>'',
       nuspec [padded_license]),
      (nuspec_text ''<licenseUrl>https://example.org/license</licenseUrl>'',
       nuspec [nuspec_field ''licenseUrl'' [] ''https://example.org/license'']),
      (nuspec_text ''<license type="expression"> MIT </license>'',
       nuspec [spaced_license]),
      (nuspec_text ''<license type="file" />'',
       nuspec [empty_file_license])]\<close>

definition example_fromstring :: "string \<Rightarrow> element option" where
  \<comment> \<open>every other text, such as \<open><html>\<close>, is not a document\<close>
  "example_fromstring data = map_of example_documents data"

definition example_urlopen :: "string \<Rightarrow> string option" where
  \<comment> \<open>every other request raises\<close>
  "example_urlopen url =
     map_of
       [(nuspec_url ''Serilog'' ''3.1.1'', fst (example_documents ! 0)),
        (nuspec_url ''Dapper'' ''2.1.35'', fst (example_documents ! 1)),
        (nuspec_url ''Upper'' ''1.0'', fst (example_documents ! 2)),
        (nuspec_url ''Padded'' ''1.0'', fst (example_documents ! 3)),
        (nuspec_url ''Legacy'' ''1.0'', fst (example_documents ! 4)),
        (nuspec_url ''Spaced'' ''1.0'', fst (example_documents ! 5)),
        (nuspec_url ''Empty'' ''1.0'', fst (example_documents ! 6)),
        (nuspec_url ''Broken'' ''1.0'', ''<html>'')]
       url"

definition zlib_dir :: fsnode where
  "zlib_dir =
     Dir [(''README'', File ''zlib''),
          (''COPYING'', File ''copying''),
          (''LICENSE.md'', File ''MIT\<newline>\<newline>'')]"

definition abc_dir :: fsnode where
  "abc_dir = Dir [(''src'', Dir [])]"

definition example_third_party :: fsnode where
  "example_third_party = Dir [(''zlib'', zlib_dir), (''VERSION'', File ''1''), (''Abc'', abc_dir)]"

definition zlib_component :: component where
  "zlib_component = bundled_component (''zlib'', zlib_dir)"

definition abc_component :: component where
  "abc_component = bundled_component (''Abc'', abc_dir)"

definition slash_component :: component where
  "slash_component =
     \<lparr>name = ''My/Package'', version = ''2.0'', source = ''NuGet'', license_name = ''UNKNOWN'',
      license_url = [], homepage = [], notes' = []\<rparr>"

definition at_component :: component where
  "at_component =
     \<lparr>name = ''My@Package'', version = ''2.0'', source = ''NuGet'', license_name = ''UNKNOWN'',
      license_url = [], homepage = [], notes' = []\<rparr>"

definition reverse_iter :: "(string \<times> string) set \<Rightarrow> (string \<times> string) list" where
  \<comment> \<open>a second order of iteration over a set, beside \<open>sorted_list_of_set\<close>\<close>
  "reverse_iter S = rev (sorted_list_of_set S)"

definition gen_ok :: completed_process where
  "gen_ok =
     \<lparr>returncode = 0, stdout = ''Generated THIRD_PARTY_NOTICES.md and LICENSES/*.txt\<newline>'',
      stderr = []\<rparr>"

definition gen_failed :: completed_process where
  "gen_failed = \<lparr>returncode = 2, stdout = [], stderr = ''Traceback\<newline>''\<rparr>"

definition git_quiet :: completed_process where
  "git_quiet = \<lparr>returncode = 0, stdout = [], stderr = []\<rparr>"

definition diff_dirty :: completed_process where
  "diff_dirty =
     \<lparr>returncode = 1, stdout = ''diff --git a/THIRD_PARTY_NOTICES.md b/THIRD_PARTY_NOTICES.md'',
      stderr = []\<rparr>"

definition others_found :: completed_process where
  "others_found =
     \<lparr>returncode = 0, stdout = ''LICENSES/NuGet_Dapper_2.1.35.txt\<newline>'', stderr = []\<rparr>"

definition broken_csproj :: element where
  "broken_csproj =
     Element ''Project'' [] None
       [Element ''ItemGroup'' [] None
          [Element ''PackageReference'' [(''Include'', ''Broken''), (''Version'', ''1.0'')]
             None []]]"


section \<open>The collector: deduplication, order, blank entries\<close>

lemma collect_packages_Some:
  "collect_packages (map Some trees) acc =
     Inr (acc \<union> (\<Union>t\<in>set trees. set (tree_packages t)))"
  by (induction trees arbitrary: acc) auto

text \<open>
  C8. When every manifest parses, the collector returns the pairs the manifests declare,
  each exactly once, whatever order the set \<open>packages\<close> is iterated in (an enumeration
  \<open>set_iter\<close> of it without repetition), and the result is in ascending order of the key
  (lower-cased name, version).
\<close>

theorem read_csproj_packages_distinct_sorted:
  assumes "S = (\<Union>t\<in>set trees. set (tree_packages t))"
    and "set (set_iter S) = S" and "distinct (set_iter S)"
  shows "\<exists>ps. read_csproj_packages set_iter (map Some trees) = Inr ps
           \<and> set ps = S \<and> distinct ps
           \<and> sorted (map (\<lambda>x. (lower (fst x), snd x)) ps)"
  using assms by (simp add: read_csproj_packages_def collect_packages_Some sort_packages_def)

theorem read_csproj_packages_distinct_sorted_witness:
  "read_csproj_packages sorted_list_of_set (map Some [example_csproj, example_csproj])
     = Inr [(''Dapper'', ''2.1.35''), (''Serilog'', ''3.1.1'')]
   \<and> (\<exists>ps. read_csproj_packages sorted_list_of_set (map Some [example_csproj, example_csproj])
             = Inr ps
           \<and> set ps = (\<Union>t\<in>set [example_csproj, example_csproj]. set (tree_packages t))
           \<and> distinct ps
           \<and> sorted (map (\<lambda>x. (lower (fst x), snd x)) ps))"
proof
  show "read_csproj_packages sorted_list_of_set (map Some [example_csproj, example_csproj])
     = Inr [(''Dapper'', ''2.1.35''), (''Serilog'', ''3.1.1'')]"
    by code_simp
next
  show "\<exists>ps. read_csproj_packages sorted_list_of_set (map Some [example_csproj, example_csproj])
             = Inr ps
           \<and> set ps = (\<Union>t\<in>set [example_csproj, example_csproj]. set (tree_packages t))
           \<and> distinct ps
           \<and> sorted (map (\<lambda>x. (lower (fst x), snd x)) ps)"
    by (rule read_csproj_packages_distinct_sorted) simp_all
qed

text \<open>
  C3. The collector tests the name and the version for emptiness before it trims them:
  a reference whose \<open>Include\<close> is one space passes the test and is collected under the
  empty name.
\<close>

theorem read_csproj_packages_blank_name:
  "read_csproj_packages sorted_list_of_set [Some blank_csproj] = Inr [([], ''1.0'')]"
  by code_simp

section \<open>Facts about strings\<close>

lemma strip_Nil: "strip [] = []"
  by (simp add: strip_def lstrip_def rstrip_def)

lemma startswith_iff: "startswith s p \<longleftrightarrow> (\<exists>b. s = p @ b)"
  by (induction s p rule: startswith.induct) auto

lemma contains_iff: "contains s p \<longleftrightarrow> (\<exists>a b. s = a @ p @ b)"
proof (induction s)
  case Nil
  then show ?case by auto
next
  case (Cons c cs)
  show ?case
  proof
    assume "contains (c # cs) p"
    then consider "startswith (c # cs) p" | "contains cs p" by auto
    then show "\<exists>a b. c # cs = a @ p @ b"
    proof cases
      case 1
      then obtain b where "c # cs = p @ b" by (auto simp: startswith_iff)
      then have "c # cs = [] @ p @ b" by simp
      then show ?thesis by blast
    next
      case 2
      with Cons obtain a b where "cs = a @ p @ b" by auto
      then have "c # cs = (c # a) @ p @ b" by simp
      then show ?thesis by blast
    qed
  next
    assume "\<exists>a b. c # cs = a @ p @ b"
    then obtain a b where ab: "c # cs = a @ p @ b" by auto
    show "contains (c # cs) p"
    proof (cases a)
      case Nil
      with ab have "startswith (c # cs) p" by (auto simp: startswith_iff)
      then show ?thesis by simp
    next
      case (Cons x a')
      with ab have "cs = a' @ p @ b" by simp
      with Cons.IH have "contains cs p" by blast
      then show ?thesis by simp
    qed
  qed
qed


lemma rstrip_append: "rstrip t \<noteq> [] \<Longrightarrow> rstrip (h @ t) = h @ rstrip t"
  by (auto simp: rstrip_def dropWhile_append split: if_splits)




section \<open>The fetcher: failures\<close>

lemma nuget_components_unreachable:
  "list_all (\<lambda>p. urlopen (nuspec_url (fst p) (snd p)) = None) packages \<Longrightarrow>
   nuget_components urlopen fromstring packages = Inr (map unknown_component packages)"
  by (induction packages)
     (auto simp: fetch_nuspec_metadata_def unknown_metadata_def unknown_component_def)

lemma fetch_nuspec_metadata_unreachable:
  "urlopen (nuspec_url package_id ver) = None \<Longrightarrow>
   fetch_nuspec_metadata urlopen fromstring package_id ver =
     Inr \<lparr>meta_license_name = ''UNKNOWN'', meta_license_url = [], meta_homepage = [],
          meta_notes =
            ''Unable to fetch nuspec metadata from nuget.org in this environment.''\<rparr>"
  by (simp add: fetch_nuspec_metadata_def unknown_metadata_def)

lemma fetch_nuspec_metadata_raises_iff:
  "(\<exists>e. fetch_nuspec_metadata urlopen fromstring package_id ver = Inl e) \<longleftrightarrow>
   (\<exists>data. urlopen (nuspec_url package_id ver) = Some data \<and> fromstring data = None)"
  by (auto simp: fetch_nuspec_metadata_def split: option.splits)

lemma nuget_components_raises_iff:
  "(\<exists>e. nuget_components urlopen fromstring packages = Inl e) \<longleftrightarrow>
   (\<exists>p\<in>set packages. \<exists>data. urlopen (nuspec_url (fst p) (snd p)) = Some data
                              \<and> fromstring data = None)"
proof (induction packages)
  case Nil
  then show ?case by simp
next
  case (Cons p packages)
  obtain package_id ver where p: "p = (package_id, ver)" by (cases p)
  show ?case
  proof (cases "fetch_nuspec_metadata urlopen fromstring package_id ver")
    case (Inl e)
    then have "\<exists>data. urlopen (nuspec_url package_id ver) = Some data \<and> fromstring data = None"
      using fetch_nuspec_metadata_raises_iff by blast
    with Inl show ?thesis by (auto simp: p)
  next
    case (Inr m)
    then have "\<not> (\<exists>data. urlopen (nuspec_url package_id ver) = Some data \<and> fromstring data = None)"
      using fetch_nuspec_metadata_raises_iff [of urlopen fromstring package_id ver] by auto
    with Inr Cons.IH show ?thesis by (auto simp: p split: sum.splits)
  qed
qed

lemma write_license_files_not_bundled:
  "list_all (\<lambda>c. source c \<noteq> ''Bundled'') cs \<Longrightarrow>
   write_license_files cs third_party =
     Inr (map (\<lambda>c. (license_file_name c, file_text (record_lines c))) cs)"
  by (induction cs) (auto simp: write_license_file_def)

lemma generate_unreachable:
  assumes "read_csproj_packages set_iter csprojs = Inr packages"
    and "list_all (\<lambda>p. urlopen (nuspec_url (fst p) (snd p)) = None) packages"
  shows "\<exists>out. generate set_iter urlopen fromstring csprojs None = Inr out
              \<and> length (licenses out) = length packages"
proof -
  have c: "collect_components set_iter urlopen fromstring csprojs None
             = Inr (sort_components (map unknown_component packages))"
    using assms
    by (simp add: collect_components_def nuget_components_unreachable
        detect_bundled_components_def)
  have "list_all (\<lambda>c. source c \<noteq> ''Bundled'') (sort_components (map unknown_component packages))"
    by (simp add: list_all_iff sort_components_def unknown_component_def)
  from write_license_files_not_bundled [OF this] c show ?thesis
    by (simp add: generate_def sort_components_def)
qed

text \<open>
  C1. The claim asks that no failure while fetching or parsing the registry document
  leaves the fetcher as an exception, and that the report is generated all the same. A
  request that fails is turned into the placeholder record, as the lemmas above say, but
  a document that was received and does not parse is not: the registry answers the
  request for \<open>Broken 1.0\<close> with \<open><html>\<close>, the fetcher raises, and so does the
  generation of the report for a manifest that references the package.
\<close>

theorem fetch_nuspec_metadata_malformed_raises:
  "example_urlopen (nuspec_url ''Broken'' ''1.0'') = Some ''<html>''
   \<and> example_fromstring ''<html>'' = None
   \<and> fetch_nuspec_metadata example_urlopen example_fromstring ''Broken'' ''1.0''
       = Inl ParseError
   \<and> generate sorted_list_of_set example_urlopen example_fromstring [Some broken_csproj] None
       = Inl ParseError"
  by code_simp

section \<open>The fetcher: the kind of license\<close>

lemma lower_expression: "lower ''expression'' = ''expression''"
  by code_simp

lemma lower_file: "lower ''file'' = ''file''"
  by code_simp

lemma metadata_txt_found:
  "find_metadata root nm = Some e \<Longrightarrow> elem_text e = Some t \<Longrightarrow> metadata_txt root nm = strip t"
  by (auto simp: metadata_txt_def strip_Nil)

text \<open>
  C4, as the code has it. Let the document be fetched and parsed, and let \<open>E\<close> be the
  text of its license element (the first \<open>license\<close> child of a \<open>metadata\<close> element)
  without surrounding whitespace, empty when the element has no text. When \<open>E\<close> is not
  empty, the stored license name is \<open>SPDX: E\<close> for the type \<open>expression\<close> and
  \<open>License file: E\<close> for the type \<open>file\<close>; when \<open>E\<close> is empty it is \<open>UNKNOWN\<close> for
  both.
\<close>

theorem fetch_nuspec_metadata_license_kind:
  assumes "urlopen (nuspec_url package_id ver) = Some data" and "fromstring data = Some root"
    and "find_metadata root ''license'' = Some lic"
    and "E = strip (case elem_text lic of None \<Rightarrow> [] | Some t \<Rightarrow> t)"
  shows "(map_of (attrib lic) ''type'' = Some ''expression'' \<longrightarrow>
            (\<exists>m. fetch_nuspec_metadata urlopen fromstring package_id ver = Inr m
                 \<and> meta_license_name m = (if E = [] then ''UNKNOWN'' else ''SPDX: '' @ E)))
       \<and> (map_of (attrib lic) ''type'' = Some ''file'' \<longrightarrow>
            (\<exists>m. fetch_nuspec_metadata urlopen fromstring package_id ver = Inr m
                 \<and> meta_license_name m
                     = (if E = [] then ''UNKNOWN'' else ''License file: '' @ E)))"
proof -
  have tx: "metadata_txt root ''license'' = E"
    using assms(3,4) by (auto simp: metadata_txt_def strip_Nil split: option.splits)
  show ?thesis
    using assms(1-3) tx
    by (simp add: fetch_nuspec_metadata_def nuspec_metadata_def Let_def attrib_get_def
        lower_expression lower_file)
qed

theorem fetch_nuspec_metadata_license_kind_witness:
  "fetch_nuspec_metadata example_urlopen example_fromstring ''Serilog'' ''3.1.1'' =
     Inr \<lparr>meta_license_name = ''SPDX: MIT'',
          meta_license_url = ''https://licenses.nuget.org/MIT'',
          meta_homepage = ''https://serilog.net/'', meta_notes = []\<rparr>
   \<and> fetch_nuspec_metadata example_urlopen example_fromstring ''Dapper'' ''2.1.35'' =
     Inr \<lparr>meta_license_name = ''License file: LICENSE'', meta_license_url = [],
          meta_homepage = [], meta_notes = []\<rparr>
   \<and> (\<exists>m. fetch_nuspec_metadata example_urlopen example_fromstring ''Serilog'' ''3.1.1'' = Inr m
           \<and> meta_license_name m = (if ''MIT'' = [] then ''UNKNOWN'' else ''SPDX: '' @ ''MIT''))
   \<and> (\<exists>m. fetch_nuspec_metadata example_urlopen example_fromstring ''Dapper'' ''2.1.35'' = Inr m
           \<and> meta_license_name m
               = (if ''LICENSE'' = [] then ''UNKNOWN'' else ''License file: '' @ ''LICENSE''))
   \<and> (\<exists>m. fetch_nuspec_metadata example_urlopen example_fromstring ''Empty'' ''1.0'' = Inr m
           \<and> meta_license_name m
               = (if [] = ([] :: string) then ''UNKNOWN'' else ''License file: '' @ []))"
proof -
  have u1: "example_urlopen (nuspec_url ''Serilog'' ''3.1.1'') = Some (fst (example_documents ! 0))"
    by code_simp
  have p1: "example_fromstring (fst (example_documents ! 0)) = Some (snd (example_documents ! 0))"
    by code_simp
  have f1: "find_metadata (snd (example_documents ! 0)) ''license'' = Some expression_license"
    by code_simp
  have t1: "''MIT'' = strip (case elem_text expression_license of None \<Rightarrow> [] | Some t \<Rightarrow> t)"
    "map_of (attrib expression_license) ''type'' = Some ''expression''"
    by code_simp+
  have u2: "example_urlopen (nuspec_url ''Dapper'' ''2.1.35'') = Some (fst (example_documents ! 1))"
    by code_simp
  have p2: "example_fromstring (fst (example_documents ! 1)) = Some (snd (example_documents ! 1))"
    by code_simp
  have f2: "find_metadata (snd (example_documents ! 1)) ''license'' = Some file_license"
    by code_simp
  have t2: "''LICENSE'' = strip (case elem_text file_license of None \<Rightarrow> [] | Some t \<Rightarrow> t)"
    "map_of (attrib file_license) ''type'' = Some ''file''"
    by code_simp+
  have u3: "example_urlopen (nuspec_url ''Empty'' ''1.0'') = Some (fst (example_documents ! 6))"
    by code_simp
  have p3: "example_fromstring (fst (example_documents ! 6)) = Some (snd (example_documents ! 6))"
    by code_simp
  have f3: "find_metadata (snd (example_documents ! 6)) ''license'' = Some empty_file_license"
    by code_simp
  have t3: "[] = strip (case elem_text empty_file_license of None \<Rightarrow> [] | Some t \<Rightarrow> t)"
    "map_of (attrib empty_file_license) ''type'' = Some ''file''"
    by code_simp+
  have e1: "\<exists>m. fetch_nuspec_metadata example_urlopen example_fromstring ''Serilog'' ''3.1.1''
                 = Inr m
           \<and> meta_license_name m = (if ''MIT'' = [] then ''UNKNOWN'' else ''SPDX: '' @ ''MIT'')"
    using fetch_nuspec_metadata_license_kind
      [where urlopen = example_urlopen and fromstring = example_fromstring
         and package_id = "''Serilog''" and ver = "''3.1.1''", OF u1 p1 f1 t1(1)]
      t1(2)
    by blast
  have e2: "\<exists>m. fetch_nuspec_metadata example_urlopen example_fromstring ''Dapper'' ''2.1.35''
                 = Inr m
           \<and> meta_license_name m
               = (if ''LICENSE'' = [] then ''UNKNOWN'' else ''License file: '' @ ''LICENSE'')"
    using fetch_nuspec_metadata_license_kind
      [where urlopen = example_urlopen and fromstring = example_fromstring
         and package_id = "''Dapper''" and ver = "''2.1.35''", OF u2 p2 f2 t2(1)]
      t2(2)
    by blast
  have e3: "\<exists>m. fetch_nuspec_metadata example_urlopen example_fromstring ''Empty'' ''1.0'' = Inr m
           \<and> meta_license_name m
               = (if [] = ([] :: string) then ''UNKNOWN'' else ''License file: '' @ [])"
    using fetch_nuspec_metadata_license_kind
      [where urlopen = example_urlopen and fromstring = example_fromstring
         and package_id = "''Empty''" and ver = "''1.0''", OF u3 p3 f3 t3(1)]
      t3(2)
    by blast
  have v1: "fetch_nuspec_metadata example_urlopen example_fromstring ''Serilog'' ''3.1.1'' =
     Inr \<lparr>meta_license_name = ''SPDX: MIT'',
          meta_license_url = ''https://licenses.nuget.org/MIT'',
          meta_homepage = ''https://serilog.net/'', meta_notes = []\<rparr>"
    by code_simp
  have v2: "fetch_nuspec_metadata example_urlopen example_fromstring ''Dapper'' ''2.1.35'' =
     Inr \<lparr>meta_license_name = ''License file: LICENSE'', meta_license_url = [],
          meta_homepage = [], meta_notes = []\<rparr>"
    by code_simp
  from v1 v2 e1 e2 e3 show ?thesis by blast
qed

text \<open>
  C4 as stated fails when the value of the element is its text: the text \<open>" MIT "\<close> with
  the type \<open>expression\<close> is stored as \<open>SPDX: MIT\<close>, without the spaces, and an element
  of the type \<open>file\<close> without text is stored as \<open>UNKNOWN\<close>, without the prefix.
\<close>

theorem fetch_nuspec_metadata_license_kind_counterexample:
  "find_metadata (nuspec [spaced_license]) ''license'' = Some spaced_license
   \<and> map_of (attrib spaced_license) ''type'' = Some ''expression''
   \<and> elem_text spaced_license = Some '' MIT ''
   \<and> fetch_nuspec_metadata example_urlopen example_fromstring ''Spaced'' ''1.0'' =
       Inr \<lparr>meta_license_name = ''SPDX: MIT'', meta_license_url = [], meta_homepage = [],
            meta_notes = []\<rparr>
   \<and> ''SPDX: MIT'' \<noteq> ''SPDX: '' @ '' MIT ''
   \<and> find_metadata (nuspec [empty_file_license]) ''license'' = Some empty_file_license
   \<and> map_of (attrib empty_file_license) ''type'' = Some ''file''
   \<and> elem_text empty_file_license = None
   \<and> fetch_nuspec_metadata example_urlopen example_fromstring ''Empty'' ''1.0'' =
       Inr \<lparr>meta_license_name = ''UNKNOWN'', meta_license_url = [], meta_homepage = [],
            meta_notes = []\<rparr>
   \<and> ''UNKNOWN'' \<noteq> ''License file: '' @ []"
  by code_simp

text \<open>
  C10, as the code has it. Let the document be fetched and parsed. When the type of the
  license element, lower-cased, is neither \<open>expression\<close> nor \<open>file\<close> (an absent type
  counts as empty) and the text of the element is not blank, the stored license name is
  that text without its surrounding whitespace, and without a prefix. When the document
  yields no license text, the stored license name is \<open>UNKNOWN\<close> and the license URL is
  the text of the \<open>licenseUrl\<close> element, without its surrounding whitespace.
\<close>

theorem fetch_nuspec_metadata_plain_license:
  assumes "urlopen (nuspec_url package_id ver) = Some data" and "fromstring data = Some root"
  shows "(find_metadata root ''license'' = Some lic \<and> elem_text lic = Some t \<and> strip t \<noteq> []
          \<and> lower (attrib_get lic ''type'' []) \<noteq> ''expression''
          \<and> lower (attrib_get lic ''type'' []) \<noteq> ''file'' \<longrightarrow>
            (\<exists>m. fetch_nuspec_metadata urlopen fromstring package_id ver = Inr m
                 \<and> meta_license_name m = strip t))
       \<and> (metadata_txt root ''license'' = [] \<and> find_metadata root ''licenseUrl'' = Some u
          \<and> elem_text u = Some ut \<longrightarrow>
            (\<exists>m. fetch_nuspec_metadata urlopen fromstring package_id ver = Inr m
                 \<and> meta_license_name m = ''UNKNOWN'' \<and> meta_license_url m = strip ut))"
proof (intro conjI impI)
  assume h: "find_metadata root ''license'' = Some lic \<and> elem_text lic = Some t \<and> strip t \<noteq> []
          \<and> lower (attrib_get lic ''type'' []) \<noteq> ''expression''
          \<and> lower (attrib_get lic ''type'' []) \<noteq> ''file''"
  then have "metadata_txt root ''license'' = strip t"
    by (simp add: metadata_txt_found)
  with h assms show "\<exists>m. fetch_nuspec_metadata urlopen fromstring package_id ver = Inr m
                 \<and> meta_license_name m = strip t"
    by (simp add: fetch_nuspec_metadata_def nuspec_metadata_def Let_def)
next
  assume h: "metadata_txt root ''license'' = [] \<and> find_metadata root ''licenseUrl'' = Some u
          \<and> elem_text u = Some ut"
  then have "metadata_txt root ''licenseUrl'' = strip ut"
    by (simp add: metadata_txt_found)
  with h assms show "\<exists>m. fetch_nuspec_metadata urlopen fromstring package_id ver = Inr m
                 \<and> meta_license_name m = ''UNKNOWN'' \<and> meta_license_url m = strip ut"
    by (simp add: fetch_nuspec_metadata_def nuspec_metadata_def Let_def split: option.splits)
qed

theorem fetch_nuspec_metadata_plain_license_witness:
  "(\<exists>m. fetch_nuspec_metadata example_urlopen example_fromstring ''Padded'' ''1.0'' = Inr m
        \<and> meta_license_name m = strip '' MIT '')
   \<and> strip '' MIT '' = ''MIT''
   \<and> (\<exists>m. fetch_nuspec_metadata example_urlopen example_fromstring ''Legacy'' ''1.0'' = Inr m
        \<and> meta_license_name m = ''UNKNOWN''
        \<and> meta_license_url m = strip ''https://example.org/license'')"
proof -
  have u1: "example_urlopen (nuspec_url ''Padded'' ''1.0'') = Some (fst (example_documents ! 3))"
    and p1: "example_fromstring (fst (example_documents ! 3)) = Some (nuspec [padded_license])"
    and h1: "find_metadata (nuspec [padded_license]) ''license'' = Some padded_license
          \<and> elem_text padded_license = Some '' MIT '' \<and> strip '' MIT '' \<noteq> []
          \<and> lower (attrib_get padded_license ''type'' []) \<noteq> ''expression''
          \<and> lower (attrib_get padded_license ''type'' []) \<noteq> ''file''"
    and s1: "strip '' MIT '' = ''MIT''"
    by code_simp+
  have u2: "example_urlopen (nuspec_url ''Legacy'' ''1.0'') = Some (fst (example_documents ! 4))"
    and p2: "example_fromstring (fst (example_documents ! 4))
               = Some (nuspec [nuspec_field ''licenseUrl'' [] ''https://example.org/license''])"
    and h2: "metadata_txt (nuspec [nuspec_field ''licenseUrl'' [] ''https://example.org/license''])
               ''license'' = []
          \<and> find_metadata (nuspec [nuspec_field ''licenseUrl'' [] ''https://example.org/license''])
               ''licenseUrl'' = Some (nuspec_field ''licenseUrl'' [] ''https://example.org/license'')
          \<and> elem_text (nuspec_field ''licenseUrl'' [] ''https://example.org/license'')
               = Some ''https://example.org/license''"
    by code_simp+
  note a = fetch_nuspec_metadata_plain_license
    [where urlopen = example_urlopen and fromstring = example_fromstring
       and package_id = "''Padded''" and ver = "''1.0''", OF u1 p1,
     of padded_license "'' MIT ''" padded_license "[]"]
  note b = fetch_nuspec_metadata_plain_license
    [where urlopen = example_urlopen and fromstring = example_fromstring
       and package_id = "''Legacy''" and ver = "''1.0''", OF u2 p2,
     of padded_license "[]" "nuspec_field ''licenseUrl'' [] ''https://example.org/license''"
        "''https://example.org/license''"]
  from a h1 have 1: "\<exists>m. fetch_nuspec_metadata example_urlopen example_fromstring ''Padded'' ''1.0''
                        = Inr m
        \<and> meta_license_name m = strip '' MIT ''" by blast
  from b h2 have 2: "\<exists>m. fetch_nuspec_metadata example_urlopen example_fromstring ''Legacy'' ''1.0''
                        = Inr m
        \<and> meta_license_name m = ''UNKNOWN''
        \<and> meta_license_url m = strip ''https://example.org/license''" by blast
  from 1 2 s1 show ?thesis by blast
qed

text \<open>
  C10 as stated fails twice. The type \<open>EXPRESSION\<close> is neither \<open>expression\<close> nor
  \<open>file\<close>, yet the stored name carries the prefix: the code compares the lower-cased
  type. And the text \<open>" MIT "\<close> of an element without a type is stored as \<open>MIT\<close>, not
  verbatim.
\<close>

theorem fetch_nuspec_metadata_verbatim_counterexample:
  "find_metadata (nuspec [upper_license]) ''license'' = Some upper_license
   \<and> map_of (attrib upper_license) ''type'' = Some ''EXPRESSION''
   \<and> ''EXPRESSION'' \<noteq> ''expression'' \<and> ''EXPRESSION'' \<noteq> ''file''
   \<and> elem_text upper_license = Some ''MIT''
   \<and> fetch_nuspec_metadata example_urlopen example_fromstring ''Upper'' ''1.0'' =
       Inr \<lparr>meta_license_name = ''SPDX: MIT'', meta_license_url = [], meta_homepage = [],
            meta_notes = []\<rparr>
   \<and> ''SPDX: MIT'' \<noteq> ''MIT''
   \<and> find_metadata (nuspec [padded_license]) ''license'' = Some padded_license
   \<and> map_of (attrib padded_license) ''type'' = None
   \<and> elem_text padded_license = Some '' MIT ''
   \<and> fetch_nuspec_metadata example_urlopen example_fromstring ''Padded'' ''1.0'' =
       Inr \<lparr>meta_license_name = ''MIT'', meta_license_url = [], meta_homepage = [],
            meta_notes = []\<rparr>
   \<and> ''MIT'' \<noteq> '' MIT ''"
  by code_simp

section \<open>License file names\<close>

lemma safe_file_name_safe: "list_all safe_char (safe_file_name v)"
proof (induction v rule: safe_file_name.induct)
  case 1
  then show ?case by simp
next
  case (2 c cs)
  have u: "safe_char CHR ''_''" by code_simp
  from 2 u show ?case by simp
qed

lemma safe_file_name_id: "list_all safe_char v \<Longrightarrow> safe_file_name v = v"
  by (induction v) auto

lemma dropWhile_unsafe_run:
  assumes "list_all (\<lambda>d. \<not> safe_char d) u" and "b = [] \<or> safe_char (hd b)"
  shows "dropWhile (\<lambda>d. \<not> safe_char d) (u @ b) = b"
proof -
  have "dropWhile (\<lambda>d. \<not> safe_char d) (u @ b) = dropWhile (\<lambda>d. \<not> safe_char d) b"
    using assms(1) by (simp add: list_all_iff)
  also have "\<dots> = b" using assms(2) by (cases b) auto
  finally show ?thesis .
qed

lemma safe_file_name_run:
  assumes "list_all safe_char a" and "u \<noteq> []" and "list_all (\<lambda>d. \<not> safe_char d) u"
    and "b = [] \<or> safe_char (hd b)"
  shows "safe_file_name (a @ u @ b) = a @ ''_'' @ safe_file_name b"
  using assms(1)
proof (induction a)
  case Nil
  from assms(2) obtain c u' where u: "u = c # u'" by (cases u) auto
  with assms(3) have "\<not> safe_char c" "list_all (\<lambda>d. \<not> safe_char d) u'" by auto
  then show ?case using dropWhile_unsafe_run [OF _ assms(4)] by (simp add: u)
next
  case (Cons x a)
  then show ?case by simp
qed

lemma safe_literals: "list_all safe_char ''_''" "list_all safe_char ''.txt''"
  by code_simp+

text \<open>
  C2, as the code has it. Sanitization yields safe characters only, leaves a string of
  safe characters as it is, and replaces each maximal run of other characters by one
  underscore. The file name of a component is its source kind, its sanitized name and
  its sanitized version, joined by underscores and followed by \<open>.txt\<close>; it consists of
  safe characters whenever the source kind does.
\<close>

theorem license_file_name_safe:
  "list_all safe_char (safe_file_name v)
   \<and> (list_all safe_char v \<longrightarrow> safe_file_name v = v)
   \<and> (list_all safe_char a \<and> u \<noteq> [] \<and> list_all (\<lambda>d. \<not> safe_char d) u
        \<and> (b = [] \<or> safe_char (hd b)) \<longrightarrow>
      safe_file_name (a @ u @ b) = a @ ''_'' @ safe_file_name b)
   \<and> license_file_name c =
       source c @ ''_'' @ safe_file_name (name c) @ ''_'' @ safe_file_name (version c) @ ''.txt''
   \<and> (list_all safe_char (source c) \<longrightarrow> list_all safe_char (license_file_name c))"
proof (intro conjI impI)
  show "list_all safe_char (safe_file_name v)" by (rule safe_file_name_safe)
next
  assume "list_all safe_char v" then show "safe_file_name v = v" by (rule safe_file_name_id)
next
  assume "list_all safe_char a \<and> u \<noteq> [] \<and> list_all (\<lambda>d. \<not> safe_char d) u
        \<and> (b = [] \<or> safe_char (hd b))"
  then show "safe_file_name (a @ u @ b) = a @ ''_'' @ safe_file_name b"
    using safe_file_name_run by blast
next
  show "license_file_name c =
       source c @ ''_'' @ safe_file_name (name c) @ ''_'' @ safe_file_name (version c) @ ''.txt''"
    by (simp add: license_file_name_def)
next
  assume "list_all safe_char (source c)"
  then show "list_all safe_char (license_file_name c)"
    using safe_file_name_safe safe_literals by (simp add: license_file_name_def)
qed

theorem license_file_name_safe_witness:
  "safe_file_name ''My/Package@2.0'' = ''My_Package_2.0''
   \<and> safe_file_name ''Serilog'' = ''Serilog''
   \<and> safe_file_name (''My'' @ ''/@ '' @ ''Package'') = ''My'' @ ''_'' @ safe_file_name ''Package''
   \<and> list_all safe_char (license_file_name slash_component)"
proof -
  have h1: "list_all safe_char ''Serilog''" by code_simp
  have h2: "list_all safe_char ''My'' \<and> ''/@ '' \<noteq> [] \<and> list_all (\<lambda>d. \<not> safe_char d) ''/@ ''
        \<and> (''Package'' = [] \<or> safe_char (hd ''Package''))" by code_simp
  have h3: "list_all safe_char (source slash_component)" by code_simp
  have h4: "safe_file_name ''My/Package@2.0'' = ''My_Package_2.0''" by code_simp
  show ?thesis
    using h1 h2 h3 h4
      license_file_name_safe [of "''Serilog''" "''My''" "''/@ ''" "''Package''" slash_component]
    by blast
qed

text \<open>
  C2 as stated fails: two components that differ only in a character that gets sanitized
  have distinct identities and one file name.
\<close>

theorem license_file_name_collision_counterexample:
  "(source slash_component, name slash_component, version slash_component)
     \<noteq> (source at_component, name at_component, version at_component)
   \<and> license_file_name slash_component = ''NuGet_My_Package_2.0.txt''
   \<and> license_file_name at_component = ''NuGet_My_Package_2.0.txt''"
  by code_simp

section \<open>The bundled-component scanner\<close>

lemma lic_file_None:
  "lic_file item = None \<longleftrightarrow> list_all (\<lambda>n. map_of item n = None) LICENSE_FILE_CANDIDATES"
  by (auto simp: lic_file_def find_None_iff list_all_iff)

lemma distinct_candidates: "distinct LICENSE_FILE_CANDIDATES"
  by (simp add: LICENSE_FILE_CANDIDATES_def)

lemma lic_file_Some:
  assumes "i < length LICENSE_FILE_CANDIDATES"
  shows "lic_file item = Some (LICENSE_FILE_CANDIDATES ! i) \<longleftrightarrow>
         map_of item (LICENSE_FILE_CANDIDATES ! i) \<noteq> None
         \<and> list_all (\<lambda>n. map_of item n = None) (take i LICENSE_FILE_CANDIDATES)"
proof
  assume "lic_file item = Some (LICENSE_FILE_CANDIDATES ! i)"
  then obtain k where k: "k < length LICENSE_FILE_CANDIDATES"
    "map_of item (LICENSE_FILE_CANDIDATES ! k) \<noteq> None"
    "LICENSE_FILE_CANDIDATES ! i = LICENSE_FILE_CANDIDATES ! k"
    "\<forall>j<k. map_of item (LICENSE_FILE_CANDIDATES ! j) = None"
    unfolding lic_file_def find_Some_iff by blast
  from k(1,3) assms distinct_candidates have "i = k"
    by (simp add: nth_eq_iff_index_eq)
  with k assms show "map_of item (LICENSE_FILE_CANDIDATES ! i) \<noteq> None
         \<and> list_all (\<lambda>n. map_of item n = None) (take i LICENSE_FILE_CANDIDATES)"
    by (auto simp: list_all_length)
next
  assume "map_of item (LICENSE_FILE_CANDIDATES ! i) \<noteq> None
         \<and> list_all (\<lambda>n. map_of item n = None) (take i LICENSE_FILE_CANDIDATES)"
  with assms show "lic_file item = Some (LICENSE_FILE_CANDIDATES ! i)"
    unfolding lic_file_def find_Some_iff by (auto simp: list_all_length)
qed

lemma bundled_dir_Some:
  "map_of (entries tp) nm = Some d \<Longrightarrow> bundled_dir (Some tp) nm = entries d"
  by (simp add: bundled_dir_def)

lemma bundled_component_sel:
  "name (bundled_component (nm, d)) = nm" "source (bundled_component (nm, d)) = ''Bundled''"
  by (simp_all add: bundled_component_def Let_def)

lemma safe_file_name_bundled: "safe_file_name ''bundled'' = ''bundled''"
  by code_simp

lemma rstrip_no_bundled_note:
  "rstrip ''\<newline>Version: bundled\<newline>Source: Bundled\<newline>License: UNKNOWN\<newline>License URL: N/A\<newline>Homepage: N/A\<newline>\<newline>Notes: No bundled license file detected.''
   = ''\<newline>Version: bundled\<newline>Source: Bundled\<newline>License: UNKNOWN\<newline>License URL: N/A\<newline>Homepage: N/A\<newline>\<newline>Notes: No bundled license file detected.''"
  by code_simp

lemma detect_bundled_components_Dir:
  "detect_bundled_components (Some (Dir es)) =
     Inr (map bundled_component
            (sort_key (\<lambda>p. lower (fst p)) (filter (\<lambda>p. is_dir (snd p)) es)))"
  by (simp add: detect_bundled_components_def)

text \<open>
  C5, as the code has it. Let the vendored-code root be a directory whose entries have
  distinct names, and \<open>d\<close> its subdirectory \<open>nm\<close>. The scanner emits one component for
  each subdirectory and for nothing else, among them the component \<open>c\<close> of \<open>nm\<close>,
  with the source kind \<open>Bundled\<close> and the version \<open>bundled\<close>. The candidates are the
  seven names in the order given, and the one selected is the first that exists in \<open>d\<close>.
  When none exists, the license name of \<open>c\<close> is \<open>UNKNOWN\<close>, its note says that no file
  was detected, and its license record is the header alone. When the selected candidate
  is a regular file with the text \<open>t\<close>, the license name is \<open>See bundled files\<close> and
  the license record is the header, the separator and \<open>t\<close>, the whole stripped of
  trailing whitespace and ended by one newline: when \<open>t\<close> is not blank, the record ends
  with \<open>t\<close> without its trailing whitespace, then a newline.
\<close>

theorem bundled_license_file:
  assumes "tp = Dir es" and "distinct (map fst es)"
    and "(nm, d) \<in> set es" and "is_dir d" and "c = bundled_component (nm, d)"
  shows "(\<exists>cs. detect_bundled_components (Some tp) = Inr cs \<and> c \<in> set cs
              \<and> set cs = bundled_component ` {p \<in> set es. is_dir (snd p)}
              \<and> length cs = length (filter (\<lambda>p. is_dir (snd p)) es))
       \<and> name c = nm \<and> version c = ''bundled'' \<and> source c = ''Bundled''
       \<and> LICENSE_FILE_CANDIDATES =
           [''LICENSE'', ''LICENSE.txt'', ''LICENSE.md'', ''COPYING'', ''COPYING.txt'',
            ''NOTICE'', ''NOTICE.txt'']
       \<and> (lic_file (entries d) = None \<longleftrightarrow>
            list_all (\<lambda>n. map_of (entries d) n = None) LICENSE_FILE_CANDIDATES)
       \<and> (i < length LICENSE_FILE_CANDIDATES \<longrightarrow>
            (lic_file (entries d) = Some (LICENSE_FILE_CANDIDATES ! i) \<longleftrightarrow>
               map_of (entries d) (LICENSE_FILE_CANDIDATES ! i) \<noteq> None
               \<and> list_all (\<lambda>n. map_of (entries d) n = None) (take i LICENSE_FILE_CANDIDATES)))
       \<and> (lic_file (entries d) = None \<longrightarrow>
            license_name c = ''UNKNOWN'' \<and> notes' c = ''No bundled license file detected.''
            \<and> write_license_file c (Some tp) =
                Inr (''Bundled_'' @ safe_file_name nm @ ''_bundled.txt'',
                     ''Component: '' @ nm
                       @ ''\<newline>Version: bundled\<newline>Source: Bundled\<newline>License: UNKNOWN\<newline>License URL: N/A\<newline>Homepage: N/A\<newline>\<newline>Notes: No bundled license file detected.\<newline>''))
       \<and> (lic_file (entries d) = Some n \<and> map_of (entries d) n = Some (File t) \<longrightarrow>
            license_name c = ''See bundled files''
            \<and> notes' c = ''License file copied from bundled component.''
            \<and> write_license_file c (Some tp) =
                Inr (''Bundled_'' @ safe_file_name nm @ ''_bundled.txt'',
                     rstrip (''Component: '' @ nm
                       @ ''\<newline>Version: bundled\<newline>Source: Bundled\<newline>License: See bundled files\<newline>License URL: N/A\<newline>Homepage: N/A\<newline>\<newline>Notes: License file copied from bundled component.\<newline>\<newline>----- Bundled license text -----\<newline>\<newline>''
                       @ t) @ ''\<newline>'')
            \<and> (rstrip t \<noteq> [] \<longrightarrow>
                 write_license_file c (Some tp) =
                   Inr (''Bundled_'' @ safe_file_name nm @ ''_bundled.txt'',
                        ''Component: '' @ nm
                          @ ''\<newline>Version: bundled\<newline>Source: Bundled\<newline>License: See bundled files\<newline>License URL: N/A\<newline>Homepage: N/A\<newline>\<newline>Notes: License file copied from bundled component.\<newline>\<newline>----- Bundled license text -----\<newline>\<newline>''
                          @ rstrip t @ ''\<newline>'')))"
proof -
  have m: "map_of (entries tp) nm = Some d"
    using assms(1-3) by simp
  have sel: "name c = nm \<and> version c = ''bundled'' \<and> source c = ''Bundled''"
    by (simp add: assms(5) bundled_component_def Let_def)
  have fn: "license_file_name c = ''Bundled_'' @ safe_file_name nm @ ''_bundled.txt''"
    by (simp only: license_file_name_def sel safe_file_name_bundled) simp
  have det: "\<exists>cs. detect_bundled_components (Some tp) = Inr cs \<and> c \<in> set cs
              \<and> set cs = bundled_component ` {p \<in> set es. is_dir (snd p)}
              \<and> length cs = length (filter (\<lambda>p. is_dir (snd p)) es)"
    using assms(3,4) by (auto simp: assms(1,5) detect_bundled_components_Dir)
  have cands: "LICENSE_FILE_CANDIDATES =
           [''LICENSE'', ''LICENSE.txt'', ''LICENSE.md'', ''COPYING'', ''COPYING.txt'',
            ''NOTICE'', ''NOTICE.txt'']"
    by (simp add: LICENSE_FILE_CANDIDATES_def)
  have none: "license_name c = ''UNKNOWN'' \<and> notes' c = ''No bundled license file detected.''
            \<and> write_license_file c (Some tp) =
                Inr (''Bundled_'' @ safe_file_name nm @ ''_bundled.txt'',
                     ''Component: '' @ nm
                       @ ''\<newline>Version: bundled\<newline>Source: Bundled\<newline>License: UNKNOWN\<newline>License URL: N/A\<newline>Homepage: N/A\<newline>\<newline>Notes: No bundled license file detected.\<newline>'')"
    if h: "lic_file (entries d) = None"
  proof -
    have w: "write_license_file c (Some tp)
                = Inr (license_file_name c, file_text (record_lines c))"
      using h by (simp add: write_license_file_def assms(5) bundled_component_sel
        bundled_dir_Some [OF m])
    have j: "join ''\<newline>'' (record_lines c) = (''Component: '' @ nm)
         @ ''\<newline>Version: bundled\<newline>Source: Bundled\<newline>License: UNKNOWN\<newline>License URL: N/A\<newline>Homepage: N/A\<newline>\<newline>Notes: No bundled license file detected.''"
      using h by (simp add: record_lines_def assms(5) bundled_component_def Let_def or_na_def)
    have "file_text (record_lines c) = (''Component: '' @ nm)
         @ ''\<newline>Version: bundled\<newline>Source: Bundled\<newline>License: UNKNOWN\<newline>License URL: N/A\<newline>Homepage: N/A\<newline>\<newline>Notes: No bundled license file detected.''
         @ ''\<newline>''"
      unfolding file_text_def j
      by (subst rstrip_append) (simp_all only: rstrip_no_bundled_note append_assoc, simp)
    then have "file_text (record_lines c) = ''Component: '' @ nm
                       @ ''\<newline>Version: bundled\<newline>Source: Bundled\<newline>License: UNKNOWN\<newline>License URL: N/A\<newline>Homepage: N/A\<newline>\<newline>Notes: No bundled license file detected.\<newline>''"
      by simp
    with w fn h show ?thesis by (simp add: assms(5) bundled_component_def Let_def)
  qed
  have some: "license_name c = ''See bundled files''
            \<and> notes' c = ''License file copied from bundled component.''
            \<and> write_license_file c (Some tp) =
                Inr (''Bundled_'' @ safe_file_name nm @ ''_bundled.txt'',
                     rstrip (''Component: '' @ nm
                       @ ''\<newline>Version: bundled\<newline>Source: Bundled\<newline>License: See bundled files\<newline>License URL: N/A\<newline>Homepage: N/A\<newline>\<newline>Notes: License file copied from bundled component.\<newline>\<newline>----- Bundled license text -----\<newline>\<newline>''
                       @ t) @ ''\<newline>'')
            \<and> (rstrip t \<noteq> [] \<longrightarrow>
                 write_license_file c (Some tp) =
                   Inr (''Bundled_'' @ safe_file_name nm @ ''_bundled.txt'',
                        ''Component: '' @ nm
                          @ ''\<newline>Version: bundled\<newline>Source: Bundled\<newline>License: See bundled files\<newline>License URL: N/A\<newline>Homepage: N/A\<newline>\<newline>Notes: License file copied from bundled component.\<newline>\<newline>----- Bundled license text -----\<newline>\<newline>''
                          @ rstrip t @ ''\<newline>''))"
    if h: "lic_file (entries d) = Some n \<and> map_of (entries d) n = Some (File t)"
  proof -
    let ?H = "''Component: '' @ nm
                       @ ''\<newline>Version: bundled\<newline>Source: Bundled\<newline>License: See bundled files\<newline>License URL: N/A\<newline>Homepage: N/A\<newline>\<newline>Notes: License file copied from bundled component.\<newline>\<newline>----- Bundled license text -----\<newline>\<newline>''"
    have w: "write_license_file c (Some tp) =
       Inr (license_file_name c,
            file_text (record_lines c @ [[], ''----- Bundled license text -----'', []] @ [t]))"
      using h by (simp add: write_license_file_def assms(5) bundled_component_sel
        bundled_dir_Some [OF m])
    have j: "join ''\<newline>'' (record_lines c @ [[], ''----- Bundled license text -----'', []] @ [t])
             = ?H @ t"
      using h by (simp add: record_lines_def assms(5) bundled_component_def Let_def or_na_def)
    have g: "write_license_file c (Some tp) =
                Inr (''Bundled_'' @ safe_file_name nm @ ''_bundled.txt'',
                     rstrip (?H @ t) @ ''\<newline>'')"
      unfolding w file_text_def j fn ..
    have "rstrip (?H @ t) = ?H @ rstrip t" if "rstrip t \<noteq> []"
      using rstrip_append [OF that, of ?H] by simp
    with g h show ?thesis by (simp add: assms(5) bundled_component_def Let_def)
  qed
  from det sel cands lic_file_None [of "entries d"] lic_file_Some [of i "entries d"] none some
  show ?thesis by blast
qed


theorem bundled_license_file_witness:
  "detect_bundled_components (Some example_third_party) = Inr [abc_component, zlib_component]
   \<and> (\<exists>cs. detect_bundled_components (Some example_third_party) = Inr cs
          \<and> zlib_component \<in> set cs
          \<and> set cs = bundled_component `
                {p \<in> set [(''zlib'', zlib_dir), (''VERSION'', File ''1''), (''Abc'', abc_dir)].
                   is_dir (snd p)}
          \<and> length cs = length (filter (\<lambda>p. is_dir (snd p))
                [(''zlib'', zlib_dir), (''VERSION'', File ''1''), (''Abc'', abc_dir)]))
   \<and> lic_file (entries zlib_dir) = Some (LICENSE_FILE_CANDIDATES ! 2)
   \<and> license_name zlib_component = ''See bundled files''
   \<and> write_license_file zlib_component (Some example_third_party) =
        Inr (''Bundled_'' @ safe_file_name ''zlib'' @ ''_bundled.txt'',
             ''Component: '' @ ''zlib''
               @ ''\<newline>Version: bundled\<newline>Source: Bundled\<newline>License: See bundled files\<newline>License URL: N/A\<newline>Homepage: N/A\<newline>\<newline>Notes: License file copied from bundled component.\<newline>\<newline>----- Bundled license text -----\<newline>\<newline>''
               @ rstrip ''MIT\<newline>\<newline>'' @ ''\<newline>'')
   \<and> write_license_file zlib_component (Some example_third_party) =
        Inr (''Bundled_zlib_bundled.txt'',
             ''Component: zlib\<newline>Version: bundled\<newline>Source: Bundled\<newline>License: See bundled files\<newline>License URL: N/A\<newline>Homepage: N/A\<newline>\<newline>Notes: License file copied from bundled component.\<newline>\<newline>----- Bundled license text -----\<newline>\<newline>MIT\<newline>'')
   \<and> lic_file (entries abc_dir) = None
   \<and> license_name abc_component = ''UNKNOWN''
   \<and> notes' abc_component = ''No bundled license file detected.''
   \<and> write_license_file abc_component (Some example_third_party) =
        Inr (''Bundled_'' @ safe_file_name ''Abc'' @ ''_bundled.txt'',
             ''Component: '' @ ''Abc''
               @ ''\<newline>Version: bundled\<newline>Source: Bundled\<newline>License: UNKNOWN\<newline>License URL: N/A\<newline>Homepage: N/A\<newline>\<newline>Notes: No bundled license file detected.\<newline>'')"
proof -
  have d: "distinct (map fst [(''zlib'', zlib_dir), (''VERSION'', File ''1''), (''Abc'', abc_dir)])"
    by code_simp
  have z: "(''zlib'', zlib_dir) \<in> set [(''zlib'', zlib_dir), (''VERSION'', File ''1''), (''Abc'', abc_dir)]"
    "is_dir zlib_dir"
    by (simp_all add: zlib_dir_def)
  have a: "(''Abc'', abc_dir) \<in> set [(''zlib'', zlib_dir), (''VERSION'', File ''1''), (''Abc'', abc_dir)]"
    "is_dir abc_dir"
    by (simp_all add: abc_dir_def)
  have i: "(2::nat) < length LICENSE_FILE_CANDIDATES" by code_simp
  have e: "map_of (entries zlib_dir) (LICENSE_FILE_CANDIDATES ! 2) \<noteq> None
           \<and> list_all (\<lambda>n. map_of (entries zlib_dir) n = None) (take 2 LICENSE_FILE_CANDIDATES)"
    by code_simp
  have f: "lic_file (entries zlib_dir) = Some ''LICENSE.md''
           \<and> map_of (entries zlib_dir) ''LICENSE.md'' = Some (File ''MIT\<newline>\<newline>'')"
    by code_simp
  have r: "rstrip ''MIT\<newline>\<newline>'' \<noteq> []" by code_simp
  have n: "lic_file (entries abc_dir) = None" by code_simp
  have v: "detect_bundled_components (Some example_third_party)
             = Inr [abc_component, zlib_component]"
    by code_simp
  have w: "write_license_file zlib_component (Some example_third_party) =
        Inr (''Bundled_zlib_bundled.txt'',
             ''Component: zlib\<newline>Version: bundled\<newline>Source: Bundled\<newline>License: See bundled files\<newline>License URL: N/A\<newline>Homepage: N/A\<newline>\<newline>Notes: License file copied from bundled component.\<newline>\<newline>----- Bundled license text -----\<newline>\<newline>MIT\<newline>'')"
    by code_simp
  note zl = bundled_license_file
    [OF example_third_party_def d z zlib_component_def,
     of 2 "''LICENSE.md''" "''MIT\<newline>\<newline>''"]
  note ab = bundled_license_file
    [OF example_third_party_def d a abc_component_def, of 0 "''LICENSE''" "[]"]
  from zl have 0: "\<exists>cs. detect_bundled_components (Some example_third_party) = Inr cs
          \<and> zlib_component \<in> set cs
          \<and> set cs = bundled_component `
                {p \<in> set [(''zlib'', zlib_dir), (''VERSION'', File ''1''), (''Abc'', abc_dir)].
                   is_dir (snd p)}
          \<and> length cs = length (filter (\<lambda>p. is_dir (snd p))
                [(''zlib'', zlib_dir), (''VERSION'', File ''1''), (''Abc'', abc_dir)])"
    by blast
  from zl i e have 1: "lic_file (entries zlib_dir) = Some (LICENSE_FILE_CANDIDATES ! 2)"
    by blast
  from zl f r have 2: "license_name zlib_component = ''See bundled files''"
    and 3: "write_license_file zlib_component (Some example_third_party) =
        Inr (''Bundled_'' @ safe_file_name ''zlib'' @ ''_bundled.txt'',
             ''Component: '' @ ''zlib''
               @ ''\<newline>Version: bundled\<newline>Source: Bundled\<newline>License: See bundled files\<newline>License URL: N/A\<newline>Homepage: N/A\<newline>\<newline>Notes: License file copied from bundled component.\<newline>\<newline>----- Bundled license text -----\<newline>\<newline>''
               @ rstrip ''MIT\<newline>\<newline>'' @ ''\<newline>'')"
    by blast+
  from ab n have 4: "license_name abc_component = ''UNKNOWN''"
    and 5: "notes' abc_component = ''No bundled license file detected.''"
    and 6: "write_license_file abc_component (Some example_third_party) =
        Inr (''Bundled_'' @ safe_file_name ''Abc'' @ ''_bundled.txt'',
             ''Component: '' @ ''Abc''
               @ ''\<newline>Version: bundled\<newline>Source: Bundled\<newline>License: UNKNOWN\<newline>License URL: N/A\<newline>Homepage: N/A\<newline>\<newline>Notes: No bundled license file detected.\<newline>'')"
    by blast+
  from v w n 0 1 2 3 4 5 6 show ?thesis by blast
qed

text \<open>
  C5 as stated fails on a license file that ends in more than one newline: the file
  selected in \<open>zlib\<close> is \<open>LICENSE.md\<close> with the text \<open>MIT\<close> and two newlines, and that
  text does not occur in the license record written for the component.
\<close>

theorem bundled_license_verbatim_counterexample:
  "lic_file (bundled_dir (Some example_third_party) ''zlib'') = Some ''LICENSE.md''
   \<and> map_of (bundled_dir (Some example_third_party) ''zlib'') ''LICENSE.md''
       = Some (File ''MIT\<newline>\<newline>'')
   \<and> (case write_license_file zlib_component (Some example_third_party) of
         Inl e \<Rightarrow> False
       | Inr f \<Rightarrow> fst f = ''Bundled_zlib_bundled.txt'' \<and> \<not> contains (snd f) ''MIT\<newline>\<newline>'')"
  by code_simp

section \<open>The license name in the report\<close>



















section \<open>The drift checker\<close>

text \<open>
  C6. The checker returns the exit code of the generator when that is not zero. After a
  successful generation it returns 1 when \<open>git diff --exit-code\<close> reports a difference
  (a non-zero exit code) or when \<open>git ls-files --others\<close> lists a file (exit code zero
  and an output that is not blank). Otherwise it prints the confirmation and returns 0.
\<close>

theorem main_exit_code:
  "(returncode gen \<noteq> 0 \<longrightarrow> fst (main gen diff others) = returncode gen)
   \<and> (returncode gen = 0
        \<and> (returncode diff \<noteq> 0 \<or> (returncode others = 0 \<and> strip (stdout others) \<noteq> []))
      \<longrightarrow> fst (main gen diff others) = 1)
   \<and> (returncode gen = 0 \<and> returncode diff = 0
        \<and> \<not> (returncode others = 0 \<and> strip (stdout others) \<noteq> [])
      \<longrightarrow> main gen diff others =
            (0,
             stdout gen
               @ ''[OK] THIRD_PARTY_NOTICES and LICENSES are present and up-to-date.\<newline>'',
             stderr gen))"
  by (auto simp: main_def)

theorem main_exit_code_witness:
  "fst (main gen_failed git_quiet git_quiet) = 2
   \<and> fst (main gen_ok diff_dirty git_quiet) = 1
   \<and> fst (main gen_ok git_quiet others_found) = 1
   \<and> main gen_ok git_quiet git_quiet =
        (0,
         stdout gen_ok
           @ ''[OK] THIRD_PARTY_NOTICES and LICENSES are present and up-to-date.\<newline>'',
         stderr gen_ok)"
proof -
  have a: "returncode gen_failed \<noteq> 0" "returncode gen_failed = 2" by code_simp+
  have b: "returncode gen_ok = 0 \<and> (returncode diff_dirty \<noteq> 0
             \<or> (returncode git_quiet = 0 \<and> strip (stdout git_quiet) \<noteq> []))" by code_simp
  have c: "returncode gen_ok = 0 \<and> (returncode git_quiet \<noteq> 0
             \<or> (returncode others_found = 0 \<and> strip (stdout others_found) \<noteq> []))"
    by code_simp
  have d: "returncode gen_ok = 0 \<and> returncode git_quiet = 0
        \<and> \<not> (returncode git_quiet = 0 \<and> strip (stdout git_quiet) \<noteq> [])" by code_simp
  from a main_exit_code [of gen_failed git_quiet git_quiet]
  have 1: "fst (main gen_failed git_quiet git_quiet) = 2" by simp
  from b main_exit_code [of gen_ok diff_dirty git_quiet]
  have 2: "fst (main gen_ok diff_dirty git_quiet) = 1" by blast
  from c main_exit_code [of gen_ok git_quiet others_found]
  have 3: "fst (main gen_ok git_quiet others_found) = 1" by blast
  from d main_exit_code [of gen_ok git_quiet git_quiet]
  have 4: "main gen_ok git_quiet git_quiet =
        (0,
         stdout gen_ok
           @ ''[OK] THIRD_PARTY_NOTICES and LICENSES are present and up-to-date.\<newline>'',
         stderr gen_ok)" by blast
  from 1 2 3 4 show ?thesis by blast
qed

section \<open>Determinism of the generator\<close>

lemma reverse_iter_enumerates:
  "finite S \<Longrightarrow> set (reverse_iter S) = S \<and> distinct (reverse_iter S)"
  by (simp add: reverse_iter_def)

lemma sort_packages_order_independent:
  assumes "distinct xs" and "distinct ys" and "set xs = set ys"
    and "inj_on (\<lambda>x. (lower (fst x), snd x)) (set xs)"
  shows "sort_packages xs = sort_packages ys"
  unfolding sort_packages_def
proof (rule map_sorted_distinct_set_unique [where f = "\<lambda>x. (lower (fst x), snd x)"])
  show "inj_on (\<lambda>x. (lower (fst x), snd x))
          (set (sort_key (\<lambda>x. (lower (fst x), snd x)) xs)
           \<union> set (sort_key (\<lambda>x. (lower (fst x), snd x)) ys))"
    using assms(3,4) by simp
  show "distinct (map (\<lambda>x. (lower (fst x), snd x)) (sort_key (\<lambda>x. (lower (fst x), snd x)) xs))"
    using assms(1,4) by (simp add: distinct_map)
  show "distinct (map (\<lambda>x. (lower (fst x), snd x)) (sort_key (\<lambda>x. (lower (fst x), snd x)) ys))"
    using assms(2,3,4) by (simp add: distinct_map)
qed (use assms(3) in simp_all)

text \<open>
  The order in which the set \<open>packages\<close> is iterated is the only thing a run does not
  take from its inputs. When no two collected pairs share the sort key, it does not show
  in the output.
\<close>

lemma generate_order_independent:
  assumes "collect_packages csprojs {} = Inr S"
    and "inj_on (\<lambda>x. (lower (fst x), snd x)) S"
    and "set (iter1 S) = S" and "distinct (iter1 S)"
    and "set (iter2 S) = S" and "distinct (iter2 S)"
  shows "generate iter1 urlopen fromstring csprojs third_party
       = generate iter2 urlopen fromstring csprojs third_party"
proof -
  have "sort_packages (iter1 S) = sort_packages (iter2 S)"
    using assms(2-6) by (intro sort_packages_order_independent) simp_all
  then have "read_csproj_packages iter1 csprojs = read_csproj_packages iter2 csprojs"
    using assms(1) by (simp add: read_csproj_packages_def)
  then show ?thesis by (simp add: generate_def collect_components_def)
qed

text \<open>
  C9. A manifest that references one package under two spellings of its name gives two
  pairs with one sort key. The stable sort leaves them in the order of iteration over the
  set, so two runs that iterate it in different orders write different reports: the
  license files are the same, the rows of the table are not in the same order.
\<close>

theorem generate_iteration_order:
  "read_csproj_packages sorted_list_of_set [Some case_csproj]
     = Inr [(''Serilog'', ''3.1.1''), (''serilog'', ''3.1.1'')]
   \<and> read_csproj_packages reverse_iter [Some case_csproj]
     = Inr [(''serilog'', ''3.1.1''), (''Serilog'', ''3.1.1'')]
   \<and> (case generate sorted_list_of_set example_urlopen example_fromstring [Some case_csproj] None
       of Inl e \<Rightarrow> False
        | Inr out1 \<Rightarrow>
            (case generate reverse_iter example_urlopen example_fromstring [Some case_csproj] None
             of Inl e \<Rightarrow> False
              | Inr out2 \<Rightarrow>
                  notice out1 \<noteq> notice out2 \<and> set (licenses out1) = set (licenses out2)))"
  by code_simp

end
